theory Spec2Isabelle
  imports Complex_Main "HOL-Library.AList"
begin

section \<open>Python values and helpers\<close>

text \<open>
  The development embeds \<^verbatim>\<open>oled_display.py\<close> (class \<^verbatim>\<open>OLEDDisplay\<close>).
  Strings are ASCII \<open>string\<close>s, dictionaries are association lists in insertion order,
  timestamps (\<^verbatim>\<open>time.time()\<close>) are idealised as \<open>real\<close> seconds.
\<close>

datatype exn = AttributeError | ProviderError

text \<open>
  An attribute of the host API object \<^verbatim>\<open>rhapi\<close> as the source probes it with
  \<^verbatim>\<open>hasattr(rhapi, a) and rhapi.a\<close>: the attribute can be missing, reading it can
  raise, it can be \<^verbatim>\<open>None\<close>, or it is a (truthy) object.
\<close>

datatype 'a attr = Missing | Raising | IsNone | Obj 'a

datatype pyval = PStr string | PInt int | PNone

definition digit_char :: "nat \<Rightarrow> char" where
  "digit_char n = ''0123456789'' ! (n mod 10)"

fun str_nat :: "nat \<Rightarrow> string" where
  "str_nat n = (if n < 10 then [digit_char n] else str_nat (n div 10) @ [digit_char (n mod 10)])"

definition str_int :: "int \<Rightarrow> string" where
  "str_int i = (if i < 0 then CHR ''-'' # str_nat (nat (- i)) else str_nat (nat i))"

text \<open>\<^verbatim>\<open>str(v)\<close>, as an f-string placeholder \<^verbatim>\<open>{v}\<close> renders it.\<close>

fun py_str :: "pyval \<Rightarrow> string" where
  "py_str (PStr s) = s"
| "py_str (PInt i) = str_int i"
| "py_str PNone = ''None''"

definition lower_char :: "char \<Rightarrow> char" where
  "lower_char c =
     (case map_of (zip ''ABCDEFGHIJKLMNOPQRSTUVWXYZ'' ''abcdefghijklmnopqrstuvwxyz'') c of
        Some d \<Rightarrow> d
      | None \<Rightarrow> c)"

definition lower :: "string \<Rightarrow> string" where
  "lower s = map lower_char s"

fun startswith :: "string \<Rightarrow> string \<Rightarrow> bool" where
  "startswith s [] = True"
| "startswith [] (p # ps) = False"
| "startswith (c # cs) (p # ps) = (c = p \<and> startswith cs ps)"

text \<open>\<^verbatim>\<open>p in s\<close> on strings: \<open>p\<close> occurs in \<open>s\<close> as a contiguous substring.\<close>

fun contains :: "string \<Rightarrow> string \<Rightarrow> bool" where
  "contains [] p = (p = [])"
| "contains (c # cs) p = (startswith (c # cs) p \<or> contains cs p)"

text \<open>\<^verbatim>\<open>d.get(k, default)\<close> and \<^verbatim>\<open>k in d\<close> on a dictionary kept as an association list.\<close>

definition dict_get :: "('k \<times> 'v) list \<Rightarrow> 'k \<Rightarrow> 'v \<Rightarrow> 'v" where
  "dict_get d k dflt = (case map_of d k of Some v \<Rightarrow> v | None \<Rightarrow> dflt)"

definition dict_has :: "('k \<times> 'v) list \<Rightarrow> 'k \<Rightarrow> bool" where
  "dict_has d k = (map_of d k \<noteq> None)"

section \<open>The telemetry provider\<close>

record reading =
  reading_value :: real
  reading_units :: string

type_synonym readings = "(string \<times> reading) list"

text \<open>
  A sensor object: it has no \<^verbatim>\<open>getReadings\<close> method, or calling the method raises
  (\<open>Inl\<close>) or returns a readings dictionary.
\<close>

datatype sensor = NoGetReadings | GetReadings "exn + readings"

record sensor_system =
  sensors_dict :: "exn + (string \<times> sensor) list"

record pilot_result =
  callsign :: "string option"
  name :: "string option"
  pilot_id :: "int option"
  fastest_lap :: "string option"

record race =
  status :: "exn + int"
  results :: "exn + (string \<times> pilot_result list) list"

record rhapi =
  sensors :: "sensor_system attr"
  race :: "race attr"

type_synonym voltage_data = "(string \<times> readings) list"

text \<open>
  The loop of \<^verbatim>\<open>get_voltage_data\<close> (lines 160-169): a sensor is stored under its name when
  it has \<^verbatim>\<open>getReadings\<close>, the call returns a non-empty dictionary, and some key contains
  \<^verbatim>\<open>voltage\<close> after lower-casing; a raising sensor is skipped.
\<close>

definition voltage_like :: "readings \<Rightarrow> bool" where
  "voltage_like r = (r \<noteq> [] \<and> list_ex (\<lambda>k. contains (lower k) ''voltage'') (map fst r))"

fun collect_voltage :: "(string \<times> sensor) list \<Rightarrow> voltage_data \<Rightarrow> voltage_data" where
  "collect_voltage [] vd = vd"
| "collect_voltage ((sensor_name, sensor_obj) # rest) vd =
     collect_voltage rest
       (case sensor_obj of
          NoGetReadings \<Rightarrow> vd
        | GetReadings (Inl e) \<Rightarrow> vd
        | GetReadings (Inr r) \<Rightarrow>
            if voltage_like r then AList.update sensor_name r vd else vd)"

text \<open>The body of the \<^verbatim>\<open>try\<close> of \<^verbatim>\<open>get_voltage_data\<close>; \<open>Inl\<close> is a raised exception.\<close>

definition get_voltage_data_try :: "rhapi \<Rightarrow> exn + voltage_data option" where
  "get_voltage_data_try rh =
     (case sensors rh of
        Missing \<Rightarrow> Inr None
      | Raising \<Rightarrow> Inl ProviderError
      | IsNone \<Rightarrow> Inr None
      | Obj s \<Rightarrow>
          (case sensors_dict s of
             Inl e \<Rightarrow> Inl e
           | Inr d \<Rightarrow>
               if d = [] then Inr None
               else (let vd = collect_voltage d [] in Inr (if vd \<noteq> [] then Some vd else None))))"

text \<open>
  \<^verbatim>\<open>get_voltage_data\<close>: the \<^verbatim>\<open>except Exception\<close> clause around the whole body turns
  every exception into the return value \<^verbatim>\<open>None\<close>, so the method itself has no raising
  outcome. The same holds for \<^verbatim>\<open>get_race_status\<close> and \<^verbatim>\<open>is_race_active\<close>.
\<close>

definition get_voltage_data :: "rhapi \<Rightarrow> voltage_data option" where
  "get_voltage_data rh = (case get_voltage_data_try rh of Inl e \<Rightarrow> None | Inr v \<Rightarrow> v)"

definition get_race_status_try :: "rhapi \<Rightarrow> exn + string option" where
  "get_race_status_try rh =
     (case race rh of
        Missing \<Rightarrow> Inr None
      | Raising \<Rightarrow> Inl ProviderError
      | IsNone \<Rightarrow> Inr None
      | Obj r \<Rightarrow>
          (case status r of
             Inl e \<Rightarrow> Inl e
           | Inr race_status \<Rightarrow>
               if race_status \<noteq> 0 then
                 (if race_status = 1 then Inr (Some ''Race: Staging'')
                  else if race_status = 2 then Inr (Some ''Race: Running'')
                  else if race_status = 3 then Inr (Some ''Race: Finished'')
                  else Inr None)
               else Inr None))"

definition get_race_status :: "rhapi \<Rightarrow> string option" where
  "get_race_status rh = (case get_race_status_try rh of Inl e \<Rightarrow> None | Inr v \<Rightarrow> v)"

definition is_race_active_try :: "rhapi \<Rightarrow> exn + bool" where
  "is_race_active_try rh =
     (case race rh of
        Missing \<Rightarrow> Inr False
      | Raising \<Rightarrow> Inl ProviderError
      | IsNone \<Rightarrow> Inr False
      | Obj r \<Rightarrow>
          (case status r of
             Inl e \<Rightarrow> Inl e
           | Inr race_status \<Rightarrow> Inr (race_status \<in> set [1, 2])))"

definition is_race_active :: "rhapi \<Rightarrow> bool" where
  "is_race_active rh = (case is_race_active_try rh of Inl e \<Rightarrow> False | Inr b \<Rightarrow> b)"

text \<open>
  A sensor contributes a voltage reading when the loop of \<^verbatim>\<open>get_voltage_data\<close> stores it;
  \<open>voltage_sensors\<close> lists the contributing sensors of a provider whose sensor dictionary
  can be read.
\<close>

fun provides_voltage :: "sensor \<Rightarrow> bool" where
  "provides_voltage NoGetReadings = False"
| "provides_voltage (GetReadings (Inl e)) = False"
| "provides_voltage (GetReadings (Inr r)) = voltage_like r"

definition voltage_sensors :: "rhapi \<Rightarrow> (string \<times> sensor) list" where
  "voltage_sensors rh =
     (case sensors rh of
        Obj s \<Rightarrow> (case sensors_dict s of Inr d \<Rightarrow> filter (\<lambda>p. provides_voltage (snd p)) d | Inl e \<Rightarrow> [])
      | _ \<Rightarrow> [])"

section \<open>The controller state and the frames it draws\<close>

datatype device = Sh1106 nat

datatype font = DejaVuSansBold | DefaultFont

type_synonym lap_info = "(string \<times> pyval) list"

record oled =
  display :: "device option"
  width :: int
  height :: int
  font :: "font option"
  last_voltage_data :: voltage_data
  display_enabled :: bool
  show_race_info :: bool
  last_lap_info :: "lap_info option"
  race_info_timeout :: real
  voltage_monitor_start_time :: real
  burn_in_protection_active :: bool
  display_thread :: bool
  thread_running :: bool

text \<open>\<^verbatim>\<open>__init__\<close>; \<open>now\<close> is the value of \<^verbatim>\<open>time.time()\<close> at construction.\<close>

definition init :: "real \<Rightarrow> oled" where
  "init now =
     \<lparr> display = None, width = 128, height = 64, font = None, last_voltage_data = [],
       display_enabled = False, show_race_info = False, last_lap_info = None,
       race_info_timeout = 0, voltage_monitor_start_time = now,
       burn_in_protection_active = False, display_thread = False, thread_running = False \<rparr>"

text \<open>
  A frame is the list of drawing calls made inside one \<^verbatim>\<open>with canvas(...)\<close> block. Every
  call of the source uses \<^verbatim>\<open>font=self.font, fill="white"\<close>, which the operations leave out.
  The text of an f-string is the list of its pieces; \<open>Fixed d v\<close> stands for the float
  \<open>v\<close> formatted with \<open>d\<close> decimals (\<^verbatim>\<open>{v:.df}\<close>).
\<close>

datatype piece = Str string | Fixed nat real

datatype draw_op = Text int int "piece list" | Line int int int int

datatype display_mode = VoltageMonitor | RaceStanding | LapNotice | BurnInGuard

text \<open>
  What one call of \<^verbatim>\<open>update_display\<close> reads from outside the object: the three clock
  readings it can take (line 110; line 116 or 125; line 128), the provider, whether the
  panel driver accepts the frame (a failing \<^verbatim>\<open>canvas\<close> raises), the two \<^verbatim>\<open>strftime\<close> texts and
  the values of the four \<^verbatim>\<open>random.randint\<close> calls.
\<close>

record tick_env =
  t_check :: real
  t_reset :: real
  t_burn :: real
  api :: rhapi
  canvas_ok :: bool
  clock_hms :: string
  clock_hm :: string
  randint :: "nat \<Rightarrow> int \<Rightarrow> int \<Rightarrow> int"

text \<open>\<^verbatim>\<open>display_race_info\<close> (lap notice); \<open>None\<close> when it returns without a frame.\<close>

definition display_race_info :: "tick_env \<Rightarrow> oled \<Rightarrow> draw_op list option" where
  "display_race_info env st =
     (case last_lap_info st of
        None \<Rightarrow> None
      | Some info \<Rightarrow>
          if \<not> display_enabled st \<or> info = [] then None
          else if \<not> canvas_ok env then None
          else
            (let y_pos = 18; line_height = 12;
                 pilot_name = dict_get info ''pilot_name'' (PStr ''Unknown'');
                 lap_number = dict_get info ''lap_number'' (PInt 0);
                 lap_time = dict_get info ''lap_time'' (PStr ''N/A'')
             in Some
               ([Text 5 0 [Str ''LAP COMPLETED''],
                 Line 0 13 (width st) 13,
                 Text 5 y_pos [Str (''Pilot: '' @ py_str pilot_name)],
                 Text 5 (y_pos + line_height) [Str (''Lap: '' @ py_str lap_number)],
                 Text 5 (y_pos + line_height + line_height) [Str (''Time: '' @ py_str lap_time)]]
                @ (if dict_has info ''position''
                   then [Text 5 (y_pos + line_height + line_height + line_height)
                           [Str (''Position: '' @ py_str (dict_get info ''position'' PNone))]]
                   else []))))"

text \<open>The \<^verbatim>\<open>for i, pilot_result in enumerate(standings)\<close> loop of \<^verbatim>\<open>display_race_status\<close>.\<close>

fun standings_lines :: "nat \<Rightarrow> int \<Rightarrow> pilot_result list \<Rightarrow> draw_op list" where
  "standings_lines i y_pos [] = []"
| "standings_lines i y_pos (pr # rest) =
     (if i \<ge> 4 then []
      else
        (let position = i + 1;
             pilot_name =
               (case callsign pr of
                  Some c \<Rightarrow> c
                | None \<Rightarrow>
                    (case name pr of
                       Some n \<Rightarrow> n
                     | None \<Rightarrow>
                         ''Pilot '' @ (case pilot_id pr of Some p \<Rightarrow> str_int p | None \<Rightarrow> ''?'')));
             lap = (case fastest_lap pr of Some f \<Rightarrow> f | None \<Rightarrow> ''N/A'');
             pilot_name = (if length pilot_name > 6 then take 6 pilot_name else pilot_name);
             lap =
               (if lap \<noteq> [] \<and> lap \<noteq> ''N/A''
                then (if startswith lap ''0:'' then drop 2 lap else lap)
                else lap);
             line_text = str_nat position @ ''.'' @ pilot_name @ '' '' @ lap
         in Text 5 y_pos [Str line_text] # standings_lines (i + 1) (y_pos + 10) rest))"

text \<open>The inner \<^verbatim>\<open>try\<close> of \<^verbatim>\<open>display_race_status\<close> (lines 260-292).\<close>

definition race_body_try :: "rhapi \<Rightarrow> exn + draw_op list" where
  "race_body_try rh =
     (let y_pos = 16; line_height = 10 in
      case race rh of
        Missing \<Rightarrow> Inr []
      | Raising \<Rightarrow> Inl ProviderError
      | IsNone \<Rightarrow> Inr []
      | Obj r \<Rightarrow>
          (case results r of
             Inl e \<Rightarrow> Inl e
           | Inr res \<Rightarrow>
               (case (if res \<noteq> [] then map_of res ''by_race_time'' else None) of
                  Some ranking \<Rightarrow> Inr (standings_lines 0 y_pos (take 4 ranking))
                | None \<Rightarrow>
                    Inr [Text 5 y_pos [Str ''Waiting for''],
                         Text 5 (y_pos + line_height) [Str ''race data...'']])))"

definition display_race_status :: "tick_env \<Rightarrow> oled \<Rightarrow> draw_op list option" where
  "display_race_status env st =
     (if \<not> display_enabled st then None
      else if \<not> canvas_ok env then None
      else
        (let race_status = (case get_race_status (api env) of Some s \<Rightarrow> s | None \<Rightarrow> ''Race Active'');
             y_pos = 16; line_height = 10
         in Some
           ([Text 5 0 [Str race_status], Line 0 13 (width st) 13]
            @ (case race_body_try (api env) of
                 Inr ops \<Rightarrow> ops
               | Inl e \<Rightarrow>
                   [Text 5 y_pos [Str ''Race in progress''],
                    Text 5 (y_pos + line_height) [Str ''Monitoring laps...'']]))))"

text \<open>
  The \<^verbatim>\<open>for sensor_name, readings in voltage_data.items()\<close> loop of
  \<^verbatim>\<open>display_normal_voltage_monitor\<close> (lines 322-345); \<open>h\<close> is \<^verbatim>\<open>self.height\<close>. The overflow
  \<^verbatim>\<open>break\<close> sits inside the \<^verbatim>\<open>if 'voltage' in readings\<close> block.
\<close>

fun sensor_lines :: "int \<Rightarrow> int \<Rightarrow> voltage_data \<Rightarrow> draw_op list" where
  "sensor_lines h y_pos [] = []"
| "sensor_lines h y_pos ((sensor_name, rd) # rest) =
     (case map_of rd ''voltage'' of
        None \<Rightarrow> sensor_lines h y_pos rest
      | Some v \<Rightarrow>
          (let line_height = 12;
               voltage_text = [Str (sensor_name @ '': ''), Fixed 2 (reading_value v), Str (reading_units v)];
               y1 = y_pos + line_height;
               current_ops =
                 (case map_of rd ''current'' of
                    Some c \<Rightarrow> [Text 5 y1 [Str ''  I: '', Fixed 1 (reading_value c), Str (reading_units c)]]
                  | None \<Rightarrow> []);
               y2 = (case map_of rd ''current'' of Some c \<Rightarrow> y1 + line_height | None \<Rightarrow> y1);
               y3 = y2 + 2
           in Text 5 y_pos voltage_text # current_ops
              @ (if y3 > h - 20 then [] else sensor_lines h y3 rest)))"

text \<open>The inner \<^verbatim>\<open>try\<close> of the no-data branch (lines 354-367), entered with \<open>y_pos = 34\<close>.\<close>

fun sensor_name_lines :: "int \<Rightarrow> string list \<Rightarrow> draw_op list" where
  "sensor_name_lines y_pos [] = []"
| "sensor_name_lines y_pos (n # ns) = Text 5 y_pos [Str (''  '' @ n)] # sensor_name_lines (y_pos + 12) ns"

definition sensor_info_try :: "rhapi \<Rightarrow> int \<Rightarrow> exn + draw_op list" where
  "sensor_info_try rh y_pos =
     (let line_height = 12;
          not_available =
            [Text 5 y_pos [Str ''Sensor system''], Text 5 (y_pos + line_height) [Str ''not available'']]
      in case sensors rh of
           Missing \<Rightarrow> Inr not_available
         | Raising \<Rightarrow> Inl ProviderError
         | IsNone \<Rightarrow> Inl AttributeError
         | Obj s \<Rightarrow>
             (case sensors_dict s of
                Inl e \<Rightarrow> Inl e
              | Inr d \<Rightarrow>
                  if d \<noteq> [] then
                    (let sensor_names = map fst d in
                     if sensor_names \<noteq> [] then
                       Inr (Text 5 y_pos [Str (''Sensors: '' @ str_nat (length sensor_names))]
                            # sensor_name_lines (y_pos + line_height) (take 2 sensor_names))
                     else Inr [Text 5 y_pos [Str ''No sensors found'']])
                  else Inr not_available))"

definition display_normal_voltage_monitor ::
    "tick_env \<Rightarrow> oled \<Rightarrow> voltage_data option \<Rightarrow> draw_op list" where
  "display_normal_voltage_monitor env st voltage_data =
     (let race_status = get_race_status (api env);
          header =
            (case race_status of
               Some s \<Rightarrow> [Text 5 0 [Str s], Line 0 15 (width st) 15]
             | None \<Rightarrow> [Text 5 0 [Str ''Voltage Monitor''], Line 0 15 (width st) 15]);
          y_start = 20; line_height = 12;
          body =
            (case (if voltage_data = Some [] then None else voltage_data) of
               Some vd \<Rightarrow> sensor_lines (height st) y_start vd
             | None \<Rightarrow>
                 Text 5 y_start [Str ''No voltage sensors'']
                 # (case sensor_info_try (api env) (y_start + line_height + 2) of
                      Inr ops \<Rightarrow> ops
                    | Inl e \<Rightarrow> [Text 5 (y_start + line_height + 2) [Str ''Sensor error'']]))
      in header @ body @ [Text 5 (height st - 12) [Str (clock_hms env)]])"

text \<open>The loop of \<^verbatim>\<open>display_burn_in_protection\<close> (lines 385-390): first sensor with a \<^verbatim>\<open>voltage\<close> key.\<close>

fun primary_voltage_text :: "voltage_data \<Rightarrow> piece list" where
  "primary_voltage_text [] = [Str ''No Data'']"
| "primary_voltage_text ((sensor_name, rd) # rest) =
     (case map_of rd ''voltage'' of
        Some v \<Rightarrow> [Fixed 1 (reading_value v), Str (reading_units v)]
      | None \<Rightarrow> primary_voltage_text rest)"

definition display_burn_in_protection ::
    "tick_env \<Rightarrow> oled \<Rightarrow> voltage_data option \<Rightarrow> draw_op list" where
  "display_burn_in_protection env st voltage_data =
     (let voltage_text = (case voltage_data of Some vd \<Rightarrow> primary_voltage_text vd | None \<Rightarrow> [Str ''No Data'']);
          margin = 10;
          max_x = width st - 50;
          max_y = height st - 20;
          voltage_x = randint env 0 margin max_x;
          voltage_y = randint env 1 margin (max_y div 2);
          time_x = randint env 2 margin max_x;
          time_y = randint env 3 (max_y div 2 + 10) max_y
      in [Text voltage_x voltage_y voltage_text, Text time_x time_y [Str (clock_hm env)]])"

section \<open>The tick\<close>

text \<open>
  \<^verbatim>\<open>update_display\<close> returns the new state and what the tick did: \<open>None\<close> when the display
  is disabled, otherwise the display routine it called (as a \<open>display_mode\<close>) and the frame
  that reached the panel (\<open>None\<close> when the routine drew nothing or the panel driver raised;
  the \<^verbatim>\<open>except\<close> clauses log and return).
\<close>

definition update_display ::
    "tick_env \<Rightarrow> oled \<Rightarrow> oled \<times> (display_mode \<times> draw_op list option) option" where
  "update_display env st =
     (if \<not> display_enabled st then (st, None)
      else if show_race_info st \<and> t_check env < race_info_timeout st then
        (st, Some (LapNotice, display_race_info env st))
      else if is_race_active (api env) then
        (let st1 = st\<lparr>voltage_monitor_start_time := t_reset env\<rparr>
         in (st1, Some (RaceStanding, display_race_status env st1)))
      else
        (let st1 = st\<lparr>show_race_info := False, last_lap_info := None\<rparr>;
             st2 = (if voltage_monitor_start_time st1 = 0
                    then st1\<lparr>voltage_monitor_start_time := t_reset env\<rparr> else st1);
             voltage_monitor_duration = t_burn env - voltage_monitor_start_time st2;
             st3 = st2\<lparr>burn_in_protection_active := voltage_monitor_duration > 60\<rparr>;
             voltage_data = get_voltage_data (api env)
         in if burn_in_protection_active st3 then
              (st3, Some (BurnInGuard,
                 if canvas_ok env then Some (display_burn_in_protection env st3 voltage_data) else None))
            else
              (st3, Some (VoltageMonitor,
                 if canvas_ok env then Some (display_normal_voltage_monitor env st3 voltage_data) else None))))"

text \<open>\<^verbatim>\<open>show_lap_completion\<close>; \<open>now\<close> is the value of \<^verbatim>\<open>time.time()\<close> at line 422.\<close>

definition show_lap_completion ::
    "real \<Rightarrow> string \<Rightarrow> int \<Rightarrow> string \<Rightarrow> int option \<Rightarrow> oled \<Rightarrow> oled" where
  "show_lap_completion now pilot lap_number lap_time position st =
     st\<lparr> last_lap_info :=
           Some [(''pilot_name'', PStr pilot),
                 (''lap_number'', PInt lap_number),
                 (''lap_time'', PStr lap_time),
                 (''position'', (case position of None \<Rightarrow> PNone | Some p \<Rightarrow> PInt p))],
         show_race_info := True,
         race_info_timeout := now + 5 \<rparr>"

section \<open>Start-up and shutdown\<close>

record init_env =
  device_ok :: bool
  dejavu_ok :: bool
  default_font_ok :: bool
  clear_ok :: bool

definition initialize_display :: "init_env \<Rightarrow> nat \<Rightarrow> oled \<Rightarrow> oled \<times> bool" where
  "initialize_display env i2c_address st =
     (if \<not> device_ok env then (st\<lparr>display_enabled := False\<rparr>, False)
      else
        (let st1 = st\<lparr>display := Some (Sh1106 i2c_address)\<rparr>;
             st2 = st1\<lparr>font := (if dejavu_ok env then Some DejaVuSansBold
                                 else if default_font_ok env then Some DefaultFont else None)\<rparr>
         in if \<not> clear_ok env then (st2\<lparr>display_enabled := False\<rparr>, False)
            else (st2\<lparr>display_enabled := True\<rparr>, True)))"


text \<open>What shutdown does to the outside: thread joins, panel clears and log records.\<close>

datatype effect = JoinThread | ClearPanel | LogInfo string | LogError string

definition stop_display_thread :: "bool \<Rightarrow> oled \<Rightarrow> oled \<times> effect list" where
  "stop_display_thread alive st =
     (st\<lparr>thread_running := False\<rparr>,
      (if display_thread st \<and> alive then [JoinThread] else [])
      @ [LogInfo ''OLED RotorHazard Display thread stopped''])"

record cleanup_env =
  thread_alive :: bool
  clear_raises :: bool

definition cleanup :: "cleanup_env \<Rightarrow> oled \<Rightarrow> oled \<times> effect list" where
  "cleanup env st =
     (let (st1, effs) = stop_display_thread (thread_alive env) st in
      if display st1 \<noteq> None then
        (if clear_raises env
         then (st1, effs @ [ClearPanel, LogError ''Error during display cleanup''])
         else (st1, effs @ [ClearPanel, LogInfo ''OLED display cleaned up'']))
      else (st1, effs @ [LogInfo ''OLED display cleaned up'']))"


text \<open>A run of successive ticks, and the display routine a tick called.\<close>

fun run_ticks :: "tick_env list \<Rightarrow> oled \<Rightarrow> (display_mode \<times> draw_op list option) option list" where
  "run_ticks [] st = []"
| "run_ticks (e # es) st = snd (update_display e st) # run_ticks es (fst (update_display e st))"

definition mode_of :: "(display_mode \<times> draw_op list option) option \<Rightarrow> display_mode option" where
  "mode_of out = map_option fst out"

section \<open>The standings view in the words of the specification\<close>

text \<open>
  One standings line as the specification describes it: rank, a dot, the display name cut
  to six characters, a blank, and the best lap without a leading \<^verbatim>\<open>0:\<close>. Line \<open>i\<close> (counted
  from 0) sits 10 pixels below the previous one, the first at \<open>y = 16\<close>.
\<close>

definition display_name :: "pilot_result \<Rightarrow> string" where
  "display_name pr =
     (case callsign pr of
        Some c \<Rightarrow> c
      | None \<Rightarrow>
          (case name pr of
             Some n \<Rightarrow> n
           | None \<Rightarrow> ''Pilot '' @ (case pilot_id pr of Some p \<Rightarrow> str_int p | None \<Rightarrow> ''?'')))"

definition best_lap :: "pilot_result \<Rightarrow> string" where
  "best_lap pr = (case fastest_lap pr of Some f \<Rightarrow> f | None \<Rightarrow> ''N/A'')"

definition strip_minute :: "string \<Rightarrow> string" where
  "strip_minute lap = (if startswith lap ''0:'' then drop 2 lap else lap)"

definition standing_line :: "nat \<Rightarrow> pilot_result \<Rightarrow> draw_op" where
  "standing_line i pr =
     Text 5 (16 + 10 * int i)
       [Str (str_nat (i + 1) @ ''.'' @ take 6 (display_name pr) @ '' '' @ strip_minute (best_lap pr))]"

definition race_header :: "tick_env \<Rightarrow> oled \<Rightarrow> draw_op list" where
  "race_header env st =
     [Text 5 0 [Str (case get_race_status (api env) of Some s \<Rightarrow> s | None \<Rightarrow> ''Race Active'')],
      Line 0 13 (width st) 13]"

section \<open>Example inputs\<close>

definition ok_init :: init_env where
  "ok_init = \<lparr> device_ok = True, dejavu_ok = True, default_font_ok = True, clear_ok = True \<rparr>"

text \<open>A controller built at time 100 whose panel initialised.\<close>

definition ready_oled :: oled where
  "ready_oled = fst (initialize_display ok_init 60 (init 100))"

definition no_provider :: rhapi where
  "no_provider = \<lparr> sensors = Missing, race = Missing \<rparr>"

definition empty_sensors_provider :: rhapi where
  "empty_sensors_provider = \<lparr> sensors = Obj \<lparr> sensors_dict = Inr [] \<rparr>, race = Missing \<rparr>"

definition red5 :: pilot_result where
  "red5 = \<lparr> callsign = Some ''Red5Leader'', name = Some ''Luke'', pilot_id = Some 5,
            fastest_lap = Some ''0:24.531'' \<rparr>"

definition racing_provider :: rhapi where
  "racing_provider =
     \<lparr> sensors = Missing,
       race = Obj \<lparr> status = Inr 2, results = Inr [(''by_race_time'', [red5])] \<rparr> \<rparr>"

definition no_pilots_provider :: rhapi where
  "no_pilots_provider =
     \<lparr> sensors = Missing,
       race = Obj \<lparr> status = Inr 2, results = Inr [(''by_race_time'', [])] \<rparr> \<rparr>"

definition battery :: sensor where
  "battery = GetReadings (Inr [(''voltage'', \<lparr> reading_value = 7.4, reading_units = ''V'' \<rparr>)])"

definition bus_sensor :: sensor where
  "bus_sensor = GetReadings (Inr [(''bus_voltage'', \<lparr> reading_value = 5, reading_units = ''V'' \<rparr>)])"

definition two_sensor_provider :: rhapi where
  "two_sensor_provider =
     \<lparr> sensors = Obj \<lparr> sensors_dict = Inr [(''Bus'', bus_sensor), (''Battery'', battery)] \<rparr>,
       race = Missing \<rparr>"

text \<open>A tick whose three clock readings are all \<open>t\<close>, with a working panel.\<close>

definition tick_at :: "real \<Rightarrow> rhapi \<Rightarrow> tick_env" where
  "tick_at t rh =
     \<lparr> t_check = t, t_reset = t, t_burn = t, api = rh, canvas_ok = True,
       clock_hms = ''12:00:00'', clock_hm = ''12:00'', randint = (\<lambda>i a b. a) \<rparr>"

text \<open>
  The controller after an idle tick at 110 and a lap event at 111 that carries no
  position, as \<^verbatim>\<open>lap_recorded_handler\<close> calls \<^verbatim>\<open>show_lap_completion\<close>.
\<close>

definition idle_oled :: oled where
  "idle_oled = fst (update_display (tick_at 110 no_provider) ready_oled)"

definition lap_oled :: oled where
  "lap_oled = show_lap_completion 111 ''Red5'' 3 ''0:24.531'' None idle_oled"

text \<open>A second lap event, for another pilot, at 114: inside the window of the first.\<close>

definition relap_oled :: oled where
  "relap_oled = show_lap_completion 114 ''Blue2'' 1 ''0:30.000'' None lap_oled"

definition quiet_shutdown :: cleanup_env where
  "quiet_shutdown = \<lparr> thread_alive = False, clear_raises = False \<rparr>"

definition raising_provider :: rhapi where
  "raising_provider = \<lparr> sensors = Raising, race = Raising \<rparr>"

definition no_voltage_provider :: rhapi where
  "no_voltage_provider =
     \<lparr> sensors = Obj \<lparr> sensors_dict = Inr [(''Temp'', NoGetReadings)] \<rparr>, race = Missing \<rparr>"

definition pilot7 :: pilot_result where
  "pilot7 = \<lparr> callsign = None, name = None, pilot_id = Some 7, fastest_lap = None \<rparr>"

definition five_pilots_provider :: rhapi where
  "five_pilots_provider =
     \<lparr> sensors = Missing,
       race = Obj \<lparr> status = Inr 1,
                    results = Inr [(''by_race_time'', [red5, pilot7, red5, pilot7, red5])] \<rparr> \<rparr>"


section \<open>Mode selection\<close>

lemma digit_char_simps [simp]:
  "digit_char 0 = CHR ''0''" "digit_char (Suc 0) = CHR ''1''"
  "digit_char (Suc (Suc 0)) = CHR ''2''" "digit_char (Suc (Suc (Suc 0))) = CHR ''3''"
  "digit_char (Suc (Suc (Suc (Suc 0)))) = CHR ''4''"
  "digit_char (numeral k) = ''0123456789'' ! (numeral k mod 10)"
  by (simp_all add: digit_char_def)

lemmas example_defs = ok_init_def ready_oled_def no_provider_def tick_at_def idle_oled_def
  lap_oled_def init_def initialize_display_def show_lap_completion_def

lemma is_race_active_iff:
  "is_race_active rh \<longleftrightarrow> (\<exists>r. race rh = Obj r \<and> (status r = Inr 1 \<or> status r = Inr 2))"
  by (auto simp: is_race_active_def is_race_active_try_def split: attr.splits sum.splits)

lemma no_provider_inactive: "\<not> is_race_active no_provider"
  by (simp add: is_race_active_iff no_provider_def)

lemma racing_provider_active: "is_race_active racing_provider"
  by (simp add: is_race_active_iff racing_provider_def)





lemma lap_oled_fields:
  "display_enabled lap_oled" "show_race_info lap_oled" "race_info_timeout lap_oled = 116"
  "voltage_monitor_start_time lap_oled = 100" "display_enabled ready_oled"
  "\<not> show_race_info ready_oled" "voltage_monitor_start_time ready_oled = 100"
  "display_enabled idle_oled" "voltage_monitor_start_time idle_oled = 100"
  by (simp_all add: example_defs update_display_def Let_def no_provider_inactive[unfolded no_provider_def])



section \<open>The lap-notice window\<close>

lemma tick_keeps_timeout:
  "race_info_timeout (fst (update_display e st)) = race_info_timeout st
   \<and> display_enabled (fst (update_display e st)) = display_enabled st"
  by (simp add: update_display_def Let_def)

lemma expired_never_lap:
  assumes "\<forall>e \<in> set es. tmo \<le> t_check e" and "race_info_timeout st = tmo"
  shows "list_all2 (\<lambda>e out. tmo \<le> t_check e \<and> mode_of out \<noteq> Some LapNotice) es (run_ticks es st)"
  using assms
proof (induction es arbitrary: st)
  case Nil
  then show ?case by simp
next
  case (Cons e es)
  have "mode_of (snd (update_display e st)) \<noteq> Some LapNotice"
    using Cons.prems by (auto simp: update_display_def Let_def mode_of_def)
  moreover have "list_all2 (\<lambda>e out. tmo \<le> t_check e \<and> mode_of out \<noteq> Some LapNotice) es
                   (run_ticks es (fst (update_display e st)))"
    using Cons.prems by (intro Cons.IH) (simp_all add: tick_keeps_timeout)
  ultimately show ?case using Cons.prems by simp
qed

lemma pending_ticks:
  assumes "display_enabled st" "show_race_info st" "sorted (map t_check es)"
  shows "list_all2
           (\<lambda>e out. if t_check e < race_info_timeout st
                     then out = Some (LapNotice, display_race_info e st)
                     else mode_of out \<noteq> Some LapNotice)
           es (run_ticks es st)"
  using assms
proof (induction es)
  case Nil
  then show ?case by simp
next
  case (Cons e es)
  show ?case
  proof (cases "t_check e < race_info_timeout st")
    case True
    then have "update_display e st = (st, Some (LapNotice, display_race_info e st))"
      using Cons.prems by (simp add: update_display_def)
    then show ?thesis using Cons True by simp
  next
    case False
    have later: "\<forall>e' \<in> set (e # es). race_info_timeout st \<le> t_check e'"
      using False Cons.prems(3) by auto
    then have "list_all2 (\<lambda>e out. race_info_timeout st \<le> t_check e \<and> mode_of out \<noteq> Some LapNotice)
                 (e # es) (run_ticks (e # es) st)"
      by (rule expired_never_lap) simp
    then show ?thesis
      by (rule list_all2_mono) auto
  qed
qed

text \<open>
  Claim C2, as stated, fails for a lap event that is followed by another one. The
  controller holds one lap: the event for \<^verbatim>\<open>Red5\<close> is accepted at 111 (window up to 116), the
  event for \<^verbatim>\<open>Blue2\<close> at 114 overwrites \<open>last_lap_info\<close> and moves \<open>race_info_timeout\<close> to
  119. The tick at 115, inside the window of the first event, draws the notice of
  \<^verbatim>\<open>Blue2\<close>, and the ticks at 116 and 118, at and after 111 + 5, still render the lap notice.
  The claim also fails when the clock steps back: after the tick at 117 has dropped the
  first event, a tick reading 113 renders the voltage monitor although 113 lies in the
  window.
\<close>

theorem C2_second_event_counterexample:
  "lap_oled = show_lap_completion 111 ''Red5'' 3 ''0:24.531'' None idle_oled
   \<and> relap_oled = show_lap_completion 114 ''Blue2'' 1 ''0:30.000'' None lap_oled
   \<and> map mode_of (run_ticks [tick_at 115 no_provider, tick_at 116 no_provider,
                              tick_at 118 no_provider] relap_oled)
       = [Some LapNotice, Some LapNotice, Some LapNotice]
   \<and> display_race_info (tick_at 115 no_provider) relap_oled
       = Some [Text 5 0 [Str ''LAP COMPLETED''], Line 0 13 128 13,
               Text 5 18 [Str ''Pilot: Blue2''], Text 5 30 [Str ''Lap: 1''],
               Text 5 42 [Str ''Time: 0:30.000''], Text 5 54 [Str ''Position: None'']]
   \<and> map mode_of (run_ticks [tick_at 117 no_provider, tick_at 113 no_provider] lap_oled)
       = [Some VoltageMonitor, Some VoltageMonitor]"
  by (simp add: lap_oled_def relap_oled_def)
     (simp add: example_defs relap_oled_def update_display_def Let_def mode_of_def
        is_race_active_def is_race_active_try_def display_race_info_def dict_get_def
        dict_has_def str_int_def)

text \<open>
  Claim C2, amended. After \<^verbatim>\<open>show_lap_completion\<close> at time \<open>T\<close> on an enabled display, in any run
  of later ticks with no further lap event and with clock readings that do not decrease,
  every tick whose check reads a time before \<open>T + 5\<close> calls \<^verbatim>\<open>display_race_info\<close> on the lap
  of that event and draws a frame when the panel accepts it, and no tick at or after
  \<open>T + 5\<close> renders the lap notice.
\<close>

theorem C2_lap_window:
  assumes "display_enabled st" and "sorted (map t_check es)"
  shows "list_all2
           (\<lambda>e out.
              if t_check e < T + 5
              then out = Some (LapNotice,
                               display_race_info e (show_lap_completion T pilot lap_number lap_time position st))
                   \<and> (canvas_ok e \<longrightarrow>
                        display_race_info e (show_lap_completion T pilot lap_number lap_time position st) \<noteq> None)
              else mode_of out \<noteq> Some LapNotice)
           es (run_ticks es (show_lap_completion T pilot lap_number lap_time position st))"
proof -
  define st1 where "st1 = show_lap_completion T pilot lap_number lap_time position st"
  have a: "display_enabled st1" "show_race_info st1" "race_info_timeout st1 = T + 5"
    using assms by (simp_all add: st1_def show_lap_completion_def)
  have b: "\<And>e. canvas_ok e \<Longrightarrow> display_race_info e st1 \<noteq> None"
    using assms by (simp add: st1_def show_lap_completion_def display_race_info_def Let_def)
  from pending_ticks[OF a(1,2) assms(2)] have "list_all2
           (\<lambda>e out.
              if t_check e < T + 5
              then out = Some (LapNotice, display_race_info e st1)
                   \<and> (canvas_ok e \<longrightarrow> display_race_info e st1 \<noteq> None)
              else mode_of out \<noteq> Some LapNotice)
           es (run_ticks es st1)"
    unfolding a(3) by (rule list_all2_mono) (auto simp: b)
  then show ?thesis unfolding st1_def .
qed

theorem C2_lap_window_witness:
  "display_enabled idle_oled
   \<and> sorted (map t_check [tick_at 111 racing_provider, tick_at 113 no_provider,
                          tick_at 116 no_provider, tick_at 118 racing_provider])
   \<and> map mode_of (run_ticks [tick_at 111 racing_provider, tick_at 113 no_provider,
                              tick_at 116 no_provider, tick_at 118 racing_provider] lap_oled)
       = [Some LapNotice, Some LapNotice, Some VoltageMonitor, Some RaceStanding]"
proof -
  have s: "sorted (map t_check [tick_at 111 racing_provider, tick_at 113 no_provider,
                          tick_at 116 no_provider, tick_at 118 racing_provider])"
    by (simp add: tick_at_def)
  have m: "map mode_of (run_ticks [tick_at 111 racing_provider, tick_at 113 no_provider,
                              tick_at 116 no_provider, tick_at 118 racing_provider] lap_oled)
       = [Some LapNotice, Some LapNotice, Some VoltageMonitor, Some RaceStanding]"
    by (simp add: example_defs update_display_def Let_def mode_of_def racing_provider_def
          is_race_active_def is_race_active_try_def)
  from C2_lap_window[OF lap_oled_fields(8) s, of 111 "''Red5''" 3 "''0:24.531''" None] m s
  show ?thesis
    by (simp add: lap_oled_fields)
qed

section \<open>Burn-in threshold and the idle timer\<close>

text \<open>
  Claim C3, as stated, fails at an idle duration of exactly 60 seconds: the controller was
  built at 100, the tick reads 160, no lap is pending and no race is active, the duration
  160 - 100 is at least 60, and the tick renders the voltage monitor.
\<close>

theorem C3_boundary_counterexample:
  "display_enabled ready_oled
   \<and> \<not> (show_race_info ready_oled \<and> t_check (tick_at 160 no_provider) < race_info_timeout ready_oled)
   \<and> \<not> is_race_active (api (tick_at 160 no_provider))
   \<and> t_burn (tick_at 160 no_provider)
        - voltage_monitor_start_time (fst (update_display (tick_at 160 no_provider) ready_oled)) \<ge> 60
   \<and> mode_of (snd (update_display (tick_at 160 no_provider) ready_oled)) = Some VoltageMonitor"
  by (simp add: example_defs update_display_def Let_def mode_of_def is_race_active_def
        is_race_active_try_def)

text \<open>
  Claim C3, amended. On a tick with no unexpired lap event and no active race, the burn-in
  guard is rendered if and only if the idle duration (the clock reading of line 128 minus
  the idle-start timestamp) is strictly greater than 60 seconds; otherwise the voltage
  monitor is rendered. The timestamp is the stored one, or the reading of line 125 when
  the stored one is 0.
\<close>

theorem C3_burn_in_threshold:
  assumes "display_enabled st"
    and "\<not> (show_race_info st \<and> t_check env < race_info_timeout st)"
    and "\<not> is_race_active (api env)"
  shows "mode_of (snd (update_display env st))
           = Some (if t_burn env - voltage_monitor_start_time (fst (update_display env st)) > 60
                   then BurnInGuard else VoltageMonitor)
       \<and> voltage_monitor_start_time (fst (update_display env st))
           = (if voltage_monitor_start_time st = 0 then t_reset env else voltage_monitor_start_time st)"
  using assms by (simp add: update_display_def Let_def mode_of_def)

theorem C3_burn_in_threshold_witness:
  "display_enabled ready_oled
   \<and> \<not> (show_race_info ready_oled \<and> t_check (tick_at 161 no_provider) < race_info_timeout ready_oled)
   \<and> \<not> is_race_active (api (tick_at 161 no_provider))
   \<and> mode_of (snd (update_display (tick_at 161 no_provider) ready_oled)) = Some BurnInGuard"
proof -
  have a: "\<not> (show_race_info ready_oled \<and> t_check (tick_at 161 no_provider) < race_info_timeout ready_oled)"
    by (simp add: lap_oled_fields)
  have b: "\<not> is_race_active (api (tick_at 161 no_provider))"
    using no_provider_inactive by (simp add: tick_at_def)
  have c: "t_burn (tick_at 161 no_provider) = 161" "t_reset (tick_at 161 no_provider) = 161"
    by (simp_all add: tick_at_def)
  from C3_burn_in_threshold[OF lap_oled_fields(5) a b] a b c show ?thesis
    by (simp add: lap_oled_fields)
qed

text \<open>
  Claim C4, as stated, fails. The tick at 110 renders the voltage monitor; a lap event
  arrives at 111; the tick at 112 leaves the voltage monitor for the lap notice and the
  idle-start timestamp stays 100. The next tick at 117 enters the voltage monitor from
  the lap notice and the timestamp is still 100.
\<close>

theorem C4_lap_notice_counterexample:
  "mode_of (snd (update_display (tick_at 110 no_provider) ready_oled)) = Some VoltageMonitor
   \<and> mode_of (snd (update_display (tick_at 112 no_provider) lap_oled)) = Some LapNotice
   \<and> voltage_monitor_start_time (fst (update_display (tick_at 112 no_provider) lap_oled)) = 100
   \<and> t_check (tick_at 112 no_provider) = 112
   \<and> t_reset (tick_at 112 no_provider) = 112
   \<and> t_burn (tick_at 112 no_provider) = 112
   \<and> mode_of (snd (update_display (tick_at 117 no_provider)
                     (fst (update_display (tick_at 112 no_provider) lap_oled)))) = Some VoltageMonitor
   \<and> voltage_monitor_start_time
        (fst (update_display (tick_at 117 no_provider)
                (fst (update_display (tick_at 112 no_provider) lap_oled)))) = 100"
  by (simp add: example_defs update_display_def Let_def mode_of_def is_race_active_def
        is_race_active_try_def)

text \<open>
  Claim C4, amended. A tick that renders the race standings sets the idle-start timestamp
  to the current time (the reading of line 116); a tick that renders the lap notice leaves
  it unchanged; and on a tick that renders the voltage monitor or the burn-in guard, the
  duration compared against the threshold is the current time (line 128) minus the
  timestamp held after the tick.
\<close>

theorem C4_idle_timer:
  assumes "display_enabled st"
  shows "(mode_of (snd (update_display env st)) = Some RaceStanding \<longrightarrow>
            voltage_monitor_start_time (fst (update_display env st)) = t_reset env)
       \<and> (mode_of (snd (update_display env st)) = Some LapNotice \<longrightarrow>
            voltage_monitor_start_time (fst (update_display env st)) = voltage_monitor_start_time st)
       \<and> (mode_of (snd (update_display env st)) = Some BurnInGuard
            \<or> mode_of (snd (update_display env st)) = Some VoltageMonitor \<longrightarrow>
            burn_in_protection_active (fst (update_display env st))
              = (t_burn env - voltage_monitor_start_time (fst (update_display env st)) > 60)
            \<and> (mode_of (snd (update_display env st)) = Some BurnInGuard
                 \<longleftrightarrow> burn_in_protection_active (fst (update_display env st))))"
  using assms by (simp add: update_display_def Let_def mode_of_def)

theorem C4_idle_timer_witness:
  "display_enabled ready_oled
   \<and> mode_of (snd (update_display (tick_at 112 racing_provider) ready_oled)) = Some RaceStanding
   \<and> voltage_monitor_start_time (fst (update_display (tick_at 112 racing_provider) ready_oled)) = 112"
proof -
  have m: "mode_of (snd (update_display (tick_at 112 racing_provider) ready_oled)) = Some RaceStanding"
    using racing_provider_active
    by (simp add: update_display_def Let_def mode_of_def lap_oled_fields) (simp add: tick_at_def)
  have t: "t_reset (tick_at 112 racing_provider) = 112"
    by (simp add: tick_at_def)
  from C4_idle_timer[OF lap_oled_fields(5), of "tick_at 112 racing_provider"] m t show ?thesis
    by (simp add: lap_oled_fields)
qed

section \<open>The telemetry adapter\<close>

lemma collect_voltage_none:
  "\<forall>p \<in> set d. \<not> provides_voltage (snd p) \<Longrightarrow> collect_voltage d vd = vd"
proof (induction d arbitrary: vd)
  case Nil
  then show ?case by simp
next
  case (Cons p d)
  obtain n s where p: "p = (n, s)" by (cases p)
  with Cons.prems have "\<not> provides_voltage s" by simp
  then have "(case s of NoGetReadings \<Rightarrow> vd | GetReadings (Inl e) \<Rightarrow> vd
              | GetReadings (Inr r) \<Rightarrow> if voltage_like r then AList.update n r vd else vd) = vd"
    by (cases s rule: provides_voltage.cases) simp_all
  with Cons show ?case by (simp add: p)
qed

text \<open>
  Claim C6. Whatever the provider's state, \<^verbatim>\<open>get_voltage_data\<close> and \<^verbatim>\<open>get_race_status\<close>
  return a value: when the provider attribute is missing, \<^verbatim>\<open>None\<close> or raises on access, and
  whenever the body of the \<^verbatim>\<open>try\<close> raises, the value is \<^verbatim>\<open>None\<close>; and
  \<^verbatim>\<open>get_voltage_data\<close> returns \<^verbatim>\<open>None\<close> whenever no sensor contributes a voltage reading.
\<close>

theorem C6_adapter_returns_none:
  "(sensors rh = Missing \<or> sensors rh = IsNone \<or> sensors rh = Raising
      \<or> (\<exists>s e. sensors rh = Obj s \<and> sensors_dict s = Inl e) \<longrightarrow> get_voltage_data rh = None)
   \<and> (race rh = Missing \<or> race rh = IsNone \<or> race rh = Raising
      \<or> (\<exists>r e. race rh = Obj r \<and> status r = Inl e) \<longrightarrow> get_race_status rh = None)
   \<and> (\<forall>e. get_voltage_data_try rh = Inl e \<longrightarrow> get_voltage_data rh = None)
   \<and> (\<forall>e. get_race_status_try rh = Inl e \<longrightarrow> get_race_status rh = None)
   \<and> (voltage_sensors rh = [] \<longrightarrow> get_voltage_data rh = None)"
proof (intro conjI impI allI)
  assume "voltage_sensors rh = []"
  then show "get_voltage_data rh = None"
    by (auto simp: voltage_sensors_def get_voltage_data_def get_voltage_data_try_def Let_def
          filter_empty_conv collect_voltage_none split: attr.splits sum.splits)
qed (auto simp: get_voltage_data_def get_voltage_data_try_def get_race_status_def
       get_race_status_try_def)

theorem C6_adapter_returns_none_witness:
  "sensors raising_provider = Raising \<and> race raising_provider = Raising
   \<and> get_voltage_data raising_provider = None \<and> get_race_status raising_provider = None
   \<and> voltage_sensors no_voltage_provider = [] \<and> get_voltage_data no_voltage_provider = None"
proof -
  have a: "sensors raising_provider = Raising" "race raising_provider = Raising"
    by (simp_all add: raising_provider_def)
  have b: "voltage_sensors no_voltage_provider = []"
    by (simp add: voltage_sensors_def no_voltage_provider_def)
  from C6_adapter_returns_none[of raising_provider] C6_adapter_returns_none[of no_voltage_provider] a b
  show ?thesis by simp
qed

section \<open>The voltage monitor without sensors\<close>

lemma no_data_frame_not_blank:
  "Text 5 20 [Str ''No voltage sensors''] \<in> set (display_normal_voltage_monitor env st None)"
  by (simp add: display_normal_voltage_monitor_def Let_def)

text \<open>
  Claim C5 at a sensor subsystem that is present with an empty sensor dictionary. The
  adapter yields no voltage data, the tick renders the voltage monitor with the lines
  \<^verbatim>\<open>No voltage sensors\<close>, \<^verbatim>\<open>Sensor system\<close>, \<^verbatim>\<open>not available\<close>, and this frame is the very frame
  rendered for a provider that has no sensor subsystem at all.
\<close>

theorem C5_empty_sensors_frame:
  "get_voltage_data empty_sensors_provider = None
   \<and> get_voltage_data no_provider = None
   \<and> snd (update_display (tick_at 110 empty_sensors_provider) ready_oled)
       = Some (VoltageMonitor,
           Some [Text 5 0 [Str ''Voltage Monitor''], Line 0 15 128 15,
                 Text 5 20 [Str ''No voltage sensors''],
                 Text 5 34 [Str ''Sensor system''], Text 5 46 [Str ''not available''],
                 Text 5 52 [Str ''12:00:00'']])
   \<and> snd (update_display (tick_at 110 empty_sensors_provider) ready_oled)
       = snd (update_display (tick_at 110 no_provider) ready_oled)"
  by (simp add: example_defs empty_sensors_provider_def update_display_def Let_def
        is_race_active_def is_race_active_try_def get_voltage_data_def get_voltage_data_try_def
        display_normal_voltage_monitor_def get_race_status_def get_race_status_try_def
        sensor_info_try_def)

section \<open>The race standings view\<close>

lemma standings_lines_enumerate:
  "i + length rs \<le> 4 \<Longrightarrow>
     standings_lines i (16 + 10 * int i) rs = map (\<lambda>(k, pr). standing_line k pr) (enumerate i rs)"
proof (induction rs arbitrary: i)
  case Nil
  then show ?case by simp
next
  case (Cons pr rs)
  have y: "16 + 10 * int i + 10 = 16 + 10 * int (Suc i)" by simp
  have "standings_lines (Suc i) (16 + 10 * int (Suc i)) rs
          = map (\<lambda>(k, pr). standing_line k pr) (enumerate (Suc i) rs)"
    using Cons.prems by (intro Cons.IH) simp
  moreover have "i < 4" using Cons.prems by simp
  ultimately show ?case
    unfolding standings_lines.simps(2) y
    by (simp add: Let_def standing_line_def display_name_def best_lap_def strip_minute_def
          split: option.splits del: str_nat.simps)
qed

text \<open>
  Claim C7, as stated, fails when the ranking exists and is empty: the race is running,
  \<^verbatim>\<open>results['by_race_time']\<close> is the empty list, so no standings are available, and the frame
  holds the header and the separator only, without the waiting placeholder.
\<close>

theorem C7_no_pilots_counterexample:
  "display_race_status (tick_at 112 no_pilots_provider) ready_oled
     = Some [Text 5 0 [Str ''Race: Running''], Line 0 13 128 13]"
  by (simp add: example_defs no_pilots_provider_def display_race_status_def Let_def
        get_race_status_def get_race_status_try_def race_body_try_def)

text \<open>
  Claim C7, amended. With a readable results dictionary, the standings view draws under
  its header one line for each of the first four entries of the \<^verbatim>\<open>by_race_time\<close> ranking,
  each \<open>standing_line\<close> (rank, dot, name cut to six characters, blank, best lap without a
  leading \<^verbatim>\<open>0:\<close>); when the results dictionary is empty or has no \<^verbatim>\<open>by_race_time\<close> entry it
  draws the two-line waiting placeholder. The lap notice draws the pilot name in full.
\<close>

theorem C7_race_standing_view:
  assumes "display_enabled st" and "canvas_ok env"
    and "race (api env) = Obj r" and "results r = Inr res"
  shows "(res \<noteq> [] \<and> map_of res ''by_race_time'' = Some ranking \<longrightarrow>
            display_race_status env st
              = Some (race_header env st
                      @ map (\<lambda>(k, pr). standing_line k pr) (enumerate 0 (take 4 ranking))))
       \<and> (res = [] \<or> map_of res ''by_race_time'' = None \<longrightarrow>
            display_race_status env st
              = Some (race_header env st
                      @ [Text 5 16 [Str ''Waiting for''], Text 5 26 [Str ''race data...'']]))
       \<and> (\<exists>f. display_race_info env (show_lap_completion now pilot lap_number lap_time position st)
                 = Some f
               \<and> Text 5 18 [Str (''Pilot: '' @ pilot)] \<in> set f)"
proof (intro conjI impI)
  assume a: "res \<noteq> [] \<and> map_of res ''by_race_time'' = Some ranking"
  have "standings_lines 0 (16 + 10 * int 0) (take 4 ranking)
          = map (\<lambda>(k, pr). standing_line k pr) (enumerate 0 (take 4 ranking))"
    by (rule standings_lines_enumerate) simp
  then show "display_race_status env st
              = Some (race_header env st
                      @ map (\<lambda>(k, pr). standing_line k pr) (enumerate 0 (take 4 ranking)))"
    using assms a by (simp add: display_race_status_def race_body_try_def race_header_def Let_def)
next
  assume "res = [] \<or> map_of res ''by_race_time'' = None"
  then show "display_race_status env st
              = Some (race_header env st
                      @ [Text 5 16 [Str ''Waiting for''], Text 5 26 [Str ''race data...'']])"
    using assms by (auto simp: display_race_status_def race_body_try_def race_header_def Let_def)
next
  show "\<exists>f. display_race_info env (show_lap_completion now pilot lap_number lap_time position st)
                 = Some f
               \<and> Text 5 18 [Str (''Pilot: '' @ pilot)] \<in> set f"
    using assms by (simp add: display_race_info_def show_lap_completion_def Let_def dict_get_def)
qed

theorem C7_race_standing_view_witness:
  "display_enabled ready_oled \<and> canvas_ok (tick_at 112 five_pilots_provider)
   \<and> display_race_status (tick_at 112 five_pilots_provider) ready_oled
       = Some [Text 5 0 [Str ''Race: Staging''], Line 0 13 128 13,
               Text 5 16 [Str ''1.Red5Le 24.531''], Text 5 26 [Str ''2.Pilot  N/A''],
               Text 5 36 [Str ''3.Red5Le 24.531''], Text 5 46 [Str ''4.Pilot  N/A'']]"
proof -
  let ?r = "\<lparr> status = Inr 1, results = Inr [(''by_race_time'', [red5, pilot7, red5, pilot7, red5])] \<rparr>"
  have c: "canvas_ok (tick_at 112 five_pilots_provider)"
    by (simp add: tick_at_def)
  have r: "race (api (tick_at 112 five_pilots_provider)) = Obj ?r"
    by (simp add: tick_at_def five_pilots_provider_def)
  have res: "results ?r = Inr [(''by_race_time'', [red5, pilot7, red5, pilot7, red5])]"
    by simp
  have hd: "race_header (tick_at 112 five_pilots_provider) ready_oled
              = [Text 5 0 [Str ''Race: Staging''], Line 0 13 128 13]"
    by (simp add: race_header_def tick_at_def five_pilots_provider_def get_race_status_def
          get_race_status_try_def example_defs)
  have body: "map (\<lambda>(k, pr). standing_line k pr) (enumerate 0 (take 4 [red5, pilot7, red5, pilot7, red5]))
                = [Text 5 16 [Str ''1.Red5Le 24.531''], Text 5 26 [Str ''2.Pilot  N/A''],
                   Text 5 36 [Str ''3.Red5Le 24.531''], Text 5 46 [Str ''4.Pilot  N/A'']]"
    by (simp add: standing_line_def display_name_def best_lap_def strip_minute_def red5_def
          pilot7_def str_int_def)
  from C7_race_standing_view[OF lap_oled_fields(5) c r res,
         of "[red5, pilot7, red5, pilot7, red5]"] hd body c
  show ?thesis
    by (simp add: lap_oled_fields)
qed

section \<open>The lap notice view\<close>

text \<open>
  Claim C8 at a lap event without a position, as the plugin's handler reports every lap:
  the notice shows the header, pilot, lap number and lap time, and a fourth body line
  \<^verbatim>\<open>Position: None\<close>, because \<^verbatim>\<open>show_lap_completion\<close> always stores the \<^verbatim>\<open>position\<close> key.
\<close>

theorem C8_position_line_without_position:
  "lap_oled = show_lap_completion 111 ''Red5'' 3 ''0:24.531'' None idle_oled
   \<and> display_race_info (tick_at 112 no_provider) lap_oled
       = Some [Text 5 0 [Str ''LAP COMPLETED''], Line 0 13 128 13,
               Text 5 18 [Str ''Pilot: Red5''], Text 5 30 [Str ''Lap: 3''],
               Text 5 42 [Str ''Time: 0:24.531''], Text 5 54 [Str ''Position: None'']]"
  by (simp add: lap_oled_def)
     (simp add: example_defs update_display_def Let_def is_race_active_def is_race_active_try_def
        display_race_info_def dict_get_def dict_has_def str_int_def)

theorem C8_position_line_without_position_witness:
  "display_enabled lap_oled
   \<and> last_lap_info lap_oled
       = Some [(''pilot_name'', PStr ''Red5''), (''lap_number'', PInt 3),
               (''lap_time'', PStr ''0:24.531''), (''position'', PNone)]
   \<and> (\<exists>f. display_race_info (tick_at 112 no_provider) lap_oled = Some f
            \<and> length f = 6 \<and> f ! 5 = Text 5 54 [Str ''Position: None''])"
proof -
  have "last_lap_info lap_oled
       = Some [(''pilot_name'', PStr ''Red5''), (''lap_number'', PInt 3),
               (''lap_time'', PStr ''0:24.531''), (''position'', PNone)]"
    by (simp add: lap_oled_def show_lap_completion_def)
  with C8_position_line_without_position lap_oled_fields(1) show ?thesis
    by simp
qed

section \<open>Shutdown\<close>

text \<open>
  Claim C9, as stated, fails: on an initialised controller the second \<^verbatim>\<open>cleanup\<close> clears
  the panel again and writes its two log records.
\<close>

theorem C9_second_cleanup_counterexample:
  "snd (cleanup quiet_shutdown (fst (cleanup quiet_shutdown ready_oled)))
     = [LogInfo ''OLED RotorHazard Display thread stopped'', ClearPanel,
        LogInfo ''OLED display cleaned up'']"
  by (simp add: example_defs quiet_shutdown_def cleanup_def stop_display_thread_def Let_def)

text \<open>
  Claim C9, amended. For every controller state, a second \<^verbatim>\<open>cleanup\<close> right after a
  completed one returns (the \<^verbatim>\<open>except\<close> clause absorbs a failing panel) and leaves the state
  as the first call left it; it clears the panel again exactly when a display handle
  exists, joins the thread again exactly when a thread exists and is still alive, and
  writes the thread-stopped log record again.
\<close>

theorem C9_cleanup_twice:
  "fst (cleanup e2 (fst (cleanup e1 st))) = fst (cleanup e1 st)
   \<and> (ClearPanel \<in> set (snd (cleanup e2 (fst (cleanup e1 st)))) \<longleftrightarrow> display st \<noteq> None)
   \<and> (JoinThread \<in> set (snd (cleanup e2 (fst (cleanup e1 st)))) \<longleftrightarrow> display_thread st \<and> thread_alive e2)
   \<and> LogInfo ''OLED RotorHazard Display thread stopped''
         \<in> set (snd (cleanup e2 (fst (cleanup e1 st))))"
  by (auto simp: cleanup_def stop_display_thread_def Let_def split: if_splits)

theorem C9_cleanup_twice_witness:
  "fst (cleanup quiet_shutdown (fst (cleanup quiet_shutdown ready_oled)))
     = fst (cleanup quiet_shutdown ready_oled)
   \<and> ClearPanel \<in> set (snd (cleanup quiet_shutdown (fst (cleanup quiet_shutdown ready_oled))))
   \<and> JoinThread \<notin> set (snd (cleanup quiet_shutdown (fst (cleanup quiet_shutdown ready_oled))))"
proof -
  have d: "display ready_oled \<noteq> None" "\<not> thread_alive quiet_shutdown"
    by (simp_all add: example_defs quiet_shutdown_def)
  from C9_cleanup_twice[of quiet_shutdown quiet_shutdown ready_oled] d show ?thesis
    by simp
qed

section \<open>Sensors whose keys only resemble a voltage key\<close>

lemma collect_voltage_other:
  "n \<notin> fst ` set d \<Longrightarrow> map_of (collect_voltage d vd) n = map_of vd n"
proof (induction d arbitrary: vd)
  case Nil
  then show ?case by simp
next
  case (Cons p d)
  obtain m s where p: "p = (m, s)" by (cases p)
  with Cons.prems have "m \<noteq> n" "n \<notin> fst ` set d" by auto
  then show ?case
    by (simp add: p Cons.IH update_conv' split: sensor.splits sum.splits)
qed

lemma collect_voltage_stores:
  assumes "(n, GetReadings (Inr r)) \<in> set d" and "distinct (map fst d)" and "voltage_like r"
  shows "map_of (collect_voltage d vd) n = Some r"
  using assms
proof (induction d arbitrary: vd)
  case Nil
  then show ?case by simp
next
  case (Cons p d)
  show ?case
  proof (cases "p = (n, GetReadings (Inr r))")
    case True
    then have "n \<notin> fst ` set d" using Cons.prems(2) by auto
    then show ?thesis
      using True Cons.prems(3) by (simp add: collect_voltage_other update_conv')
  next
    case False
    then have "(n, GetReadings (Inr r)) \<in> set d" using Cons.prems(1) by simp
    moreover have "distinct (map fst d)" using Cons.prems(2) by simp
    ultimately have "\<And>vd. map_of (collect_voltage d vd) n = Some r"
      using Cons.IH Cons.prems(3) by blast
    then show ?thesis by (cases p) simp
  qed
qed

lemma collect_voltage_distinct:
  "distinct (map fst vd) \<Longrightarrow> distinct (map fst (collect_voltage d vd))"
proof (induction d arbitrary: vd)
  case Nil
  then show ?case by simp
next
  case (Cons p d)
  obtain m s where p: "p = (m, s)" by (cases p)
  show ?case
    unfolding p collect_voltage.simps
    by (rule Cons.IH) (simp add: Cons.prems distinct_update split: sensor.splits sum.splits)
qed

text \<open>A snapshot entry without a \<^verbatim>\<open>voltage\<close> key can be removed without changing what the loops draw.\<close>

lemma sensor_lines_skip:
  assumes "\<forall>rd. (n, rd) \<in> set vd \<longrightarrow> map_of rd ''voltage'' = None"
  shows "sensor_lines h y vd = sensor_lines h y (AList.delete n vd)"
  using assms
proof (induction h y vd rule: sensor_lines.induct)
  case (1 h y_pos)
  then show ?case by simp
next
  case (2 h y_pos sensor_name rd rest)
  show ?case
  proof (cases "map_of rd ''voltage''")
    case None
    then show ?thesis using 2 by simp
  next
    case (Some v)
    then have ne: "sensor_name \<noteq> n" using "2.prems" by auto
    have rest: "\<forall>rd. (n, rd) \<in> set rest \<longrightarrow> map_of rd ''voltage'' = None"
      using "2.prems" by simp
    show ?thesis
      using Some ne "2.IH"(2)[OF Some refl refl refl refl refl refl _ rest]
      by (simp add: Let_def)
  qed
qed

lemma primary_voltage_skip:
  assumes "\<forall>rd. (n, rd) \<in> set vd \<longrightarrow> map_of rd ''voltage'' = None"
  shows "primary_voltage_text vd = primary_voltage_text (AList.delete n vd)"
  using assms
proof (induction vd)
  case Nil
  then show ?case by simp
next
  case (Cons p vd)
  obtain m rd where p: "p = (m, rd)" by (cases p)
  show ?case
    using Cons by (cases "map_of rd ''voltage''") (auto simp: p)
qed

lemma burn_in_empty_snapshot:
  "display_burn_in_protection env st (Some []) = display_burn_in_protection env st None"
  by (simp add: display_burn_in_protection_def)

text \<open>
  Claim C10. Let a sensor of a readable sensor dictionary return readings with a key that
  contains \<^verbatim>\<open>voltage\<close> after lower-casing and with no key equal to \<^verbatim>\<open>voltage\<close>. Then
  \<^verbatim>\<open>get_voltage_data\<close> returns a snapshot that holds the sensor with these readings; the
  voltage monitor frame for the snapshot is the header, the reading lines of the snapshot
  without that sensor, and the clock; and the burn-in frame is the one drawn for the
  snapshot without that sensor.
\<close>

theorem C10_voltage_like_sensor_not_drawn:
  assumes "sensors rh = Obj s" and "sensors_dict s = Inr d" and "distinct (map fst d)"
    and "(n, GetReadings (Inr r)) \<in> set d"
    and "list_ex (\<lambda>k. contains (lower k) ''voltage'') (map fst r)"
    and "''voltage'' \<notin> set (map fst r)"
  shows "\<exists>vd. get_voltage_data rh = Some vd \<and> map_of vd n = Some r
           \<and> display_normal_voltage_monitor env st (Some vd)
               = [Text 5 0 [Str (case get_race_status (api env) of
                                  Some t \<Rightarrow> t | None \<Rightarrow> ''Voltage Monitor'')],
                  Line 0 15 (width st) 15]
                 @ sensor_lines (height st) 20 (AList.delete n vd)
                 @ [Text 5 (height st - 12) [Str (clock_hms env)]]
           \<and> display_burn_in_protection env st (Some vd)
               = display_burn_in_protection env st (Some (AList.delete n vd))"
proof -
  let ?vd = "collect_voltage d []"
  have vl: "voltage_like r" using assms(5) by (auto simp: voltage_like_def)
  have stored: "map_of ?vd n = Some r"
    using assms(4,3) vl by (rule collect_voltage_stores)
  then have ne: "?vd \<noteq> []" by auto
  have "d \<noteq> []" using assms(4) by auto
  then have g: "get_voltage_data rh = Some ?vd"
    using assms(1,2) ne by (simp add: get_voltage_data_def get_voltage_data_try_def Let_def)
  have dist: "distinct (map fst ?vd)" by (rule collect_voltage_distinct) simp
  have nov: "map_of r ''voltage'' = None"
    using assms(6) by (simp add: map_of_eq_None_iff)
  have only: "\<forall>rd. (n, rd) \<in> set ?vd \<longrightarrow> map_of rd ''voltage'' = None"
    using eq_key_imp_eq_value[OF dist map_of_SomeD[OF stored]] nov by blast
  have mon: "display_normal_voltage_monitor env st (Some ?vd)
               = [Text 5 0 [Str (case get_race_status (api env) of
                                  Some t \<Rightarrow> t | None \<Rightarrow> ''Voltage Monitor'')],
                  Line 0 15 (width st) 15]
                 @ sensor_lines (height st) 20 (AList.delete n ?vd)
                 @ [Text 5 (height st - 12) [Str (clock_hms env)]]"
    using ne sensor_lines_skip[OF only, of "height st" 20]
    by (simp add: display_normal_voltage_monitor_def Let_def split: option.splits)
  have burn: "display_burn_in_protection env st (Some ?vd)
               = display_burn_in_protection env st (Some (AList.delete n ?vd))"
    using primary_voltage_skip[OF only] by (simp add: display_burn_in_protection_def)
  show ?thesis
    using g stored mon burn by blast
qed

theorem C10_voltage_like_sensor_not_drawn_witness:
  "get_voltage_data two_sensor_provider
     = Some [(''Bus'', [(''bus_voltage'', \<lparr> reading_value = 5, reading_units = ''V'' \<rparr>)]),
             (''Battery'', [(''voltage'', \<lparr> reading_value = 7.4, reading_units = ''V'' \<rparr>)])]
   \<and> display_normal_voltage_monitor (tick_at 110 two_sensor_provider) ready_oled
        (get_voltage_data two_sensor_provider)
       = [Text 5 0 [Str ''Voltage Monitor''], Line 0 15 128 15,
          Text 5 20 [Str ''Battery: '', Fixed 2 7.4, Str ''V''],
          Text 5 52 [Str ''12:00:00'']]
   \<and> display_burn_in_protection (tick_at 110 two_sensor_provider) ready_oled
        (get_voltage_data two_sensor_provider)
       = [Text 10 10 [Fixed 1 7.4, Str ''V''], Text 10 32 [Str ''12:00'']]"
proof -
  let ?r = "[(''bus_voltage'', \<lparr> reading_value = 5, reading_units = ''V'' \<rparr>)]"
  let ?d = "[(''Bus'', bus_sensor), (''Battery'', battery)]"
  have a: "sensors two_sensor_provider = Obj \<lparr> sensors_dict = Inr ?d \<rparr>"
    by (simp add: two_sensor_provider_def)
  have b: "sensors_dict \<lparr> sensors_dict = Inr ?d \<rparr> = Inr ?d"
    by simp
  have c: "distinct (map fst ?d)"
    by simp
  have d: "(''Bus'', GetReadings (Inr ?r)) \<in> set ?d"
    by (simp add: bus_sensor_def)
  have e: "list_ex (\<lambda>k. contains (lower k) ''voltage'') (map fst ?r)"
    by (simp add: lower_def lower_char_def)
  have f: "''voltage'' \<notin> set (map fst ?r)"
    by simp
  have g: "get_voltage_data two_sensor_provider
     = Some [(''Bus'', ?r),
             (''Battery'', [(''voltage'', \<lparr> reading_value = 7.4, reading_units = ''V'' \<rparr>)])]"
    by (simp add: get_voltage_data_def get_voltage_data_try_def two_sensor_provider_def
          bus_sensor_def battery_def voltage_like_def lower_def lower_char_def Let_def)
  from C10_voltage_like_sensor_not_drawn[OF a b c d e f,
         of "tick_at 110 two_sensor_provider" ready_oled] g
  show ?thesis
    by (simp add: display_burn_in_protection_def)
       (simp add: example_defs two_sensor_provider_def get_race_status_def get_race_status_try_def)
qed

end
